theory Spec2Isabelle
  imports Complex_Main
begin

section \<open>Controller: the rate-gated update scheduler\<close>

text \<open>
  Embedding of \<^verbatim>\<open>src/server/controllers/Controller.cc\<close>. The class \<^verbatim>\<open>gazebo::Time\<close> and the
  header \<^verbatim>\<open>Controller.hh\<close> are not part of the sources: simulation times and the update period
  are taken as exact real numbers of seconds, and \<^verbatim>\<open>double\<close> rates as reals.
\<close>

type_synonym Time = real

text \<open>
  A \<^verbatim>\<open>libgazebo::Iface\<close> object, as far as the controller reads it: its type tag, its
  identifier and its open count (\<^verbatim>\<open>GetOpenCount()\<close> returns an \<^verbatim>\<open>int\<close>).
\<close>

record Iface =
  GetType :: string
  GetId :: string
  GetOpenCount :: int

text \<open>
  The controller holds \<^verbatim>\<open>std::vector<libgazebo::Iface*>\<close>: a list of addresses into a store of
  interface objects. \<^verbatim>\<open>delete\<close> removes an address from the store; reading or deleting
  through an address that is not in the store is an error value.
\<close>

type_synonym iface_ptr = nat
type_synonym iface_store = "iface_ptr \<rightharpoonup> Iface"

datatype ctrl_error = InvalidIfacePointer

text \<open>
  The virtual hooks of the derived controller (\<^verbatim>\<open>LoadChild\<close>, \<^verbatim>\<open>InitChild\<close>, \<^verbatim>\<open>UpdateChild\<close>,
  \<^verbatim>\<open>ResetChild\<close>, \<^verbatim>\<open>FiniChild\<close>) are the domain work. The base class only calls them, so the
  model records each call, in order.
\<close>

datatype child_hook = LoadChild | InitChild | UpdateChild | ResetChild | FiniChild

record Controller =
  alwaysOnP :: bool
  updateRateP :: real
  updatePeriod :: Time
  lastUpdate :: Time
  ifaces :: "iface_ptr list"
  childCalls :: "child_hook list"

text \<open>
  What the controller reads from the singletons: \<^verbatim>\<open>Simulator::Instance()->GetSimTime()\<close> and
  \<^verbatim>\<open>World::Instance()->GetPhysicsEngine()->GetStepTime()\<close>.
\<close>

record Simulator =
  GetSimTime :: Time
  GetStepTime :: Time

text \<open>
  \<^verbatim>\<open>Controller::SetUpdateRate\<close>. \<^verbatim>\<open>updateRateP->SetValue(rate)\<close> stores the rate in the
  parameter object.
\<close>

definition SetUpdateRate :: "real \<Rightarrow> Controller \<Rightarrow> Controller" where
  "SetUpdateRate rate c =
     (let c1 = (if rate = 0 then c\<lparr>updatePeriod := 0.0\<rparr>
                else c\<lparr>updatePeriod := 1.0 / rate\<rparr>)
      in c1\<lparr>updateRateP := rate\<rparr>)"

text \<open>\<^verbatim>\<open>Controller::Init\<close>.\<close>

definition Init :: "Simulator \<Rightarrow> Controller \<Rightarrow> Controller" where
  "Init sim c = c\<lparr>lastUpdate := GetSimTime sim, childCalls := childCalls c @ [InitChild]\<rparr>"

text \<open>
  \<^verbatim>\<open>Controller::IsConnected\<close>: the loop over \<^verbatim>\<open>ifaces\<close> returns at the first interface whose
  open count is positive.
\<close>

fun anyIfaceOpen :: "iface_store \<Rightarrow> iface_ptr list \<Rightarrow> ctrl_error + bool" where
  "anyIfaceOpen h [] = Inr False"
| "anyIfaceOpen h (p # ps) =
     (case h p of
        None \<Rightarrow> Inl InvalidIfacePointer
      | Some i \<Rightarrow> if GetOpenCount i > 0 then Inr True else anyIfaceOpen h ps)"

definition IsConnected :: "iface_store \<Rightarrow> Controller \<Rightarrow> ctrl_error + bool" where
  "IsConnected h c = (if alwaysOnP c then Inr True else anyIfaceOpen h (ifaces c))"

text \<open>
  \<^verbatim>\<open>Controller::Update\<close>. The quotient is compared with zero as the source writes it; the
  clock is read a second time after \<^verbatim>\<open>UpdateChild\<close>, and the simulation is single-threaded,
  so both reads give the same time.
\<close>

definition Update :: "Simulator \<Rightarrow> iface_store \<Rightarrow> Controller \<Rightarrow> ctrl_error + Controller" where
  "Update sim h c =
     (case IsConnected h c of
        Inl e \<Rightarrow> Inl e
      | Inr conn \<Rightarrow>
          if conn \<or> alwaysOnP c then
            (let physics_dt = GetStepTime sim;
                 simTime = GetSimTime sim
             in if (simTime - lastUpdate c - updatePeriod c) / physics_dt \<ge> 0 then
                  Inr (c\<lparr>childCalls := childCalls c @ [UpdateChild],
                         lastUpdate := GetSimTime sim\<rparr>)
                else Inr c)
          else Inr c)"

text \<open>
  \<^verbatim>\<open>Controller::Fini\<close>: every interface is deleted, the vector is cleared, then \<^verbatim>\<open>FiniChild\<close>
  runs.
\<close>

fun deleteIfaces :: "iface_store \<Rightarrow> iface_ptr list \<Rightarrow> ctrl_error + iface_store" where
  "deleteIfaces h [] = Inr h"
| "deleteIfaces h (p # ps) =
     (case h p of
        None \<Rightarrow> Inl InvalidIfacePointer
      | Some i \<Rightarrow> deleteIfaces (h(p := None)) ps)"

definition Fini :: "iface_store \<Rightarrow> Controller \<Rightarrow> ctrl_error + (iface_store \<times> Controller)" where
  "Fini h c =
     (case deleteIfaces h (ifaces c) of
        Inl e \<Rightarrow> Inl e
      | Inr h' \<Rightarrow> Inr (h', c\<lparr>ifaces := [], childCalls := childCalls c @ [FiniChild]\<rparr>))"

text \<open>
  The invariant of the interface vector: \<^verbatim>\<open>Load\<close> pushes freshly created interfaces, and only
  \<^verbatim>\<open>Fini\<close> deletes them, so the addresses are distinct and all in the store.
\<close>

definition ifaces_live :: "iface_store \<Rightarrow> Controller \<Rightarrow> bool" where
  "ifaces_live h c \<longleftrightarrow> distinct (ifaces c) \<and> list_all (\<lambda>p. h p \<noteq> None) (ifaces c)"

section \<open>SimbodyHingeJoint: the joint state cache\<close>

text \<open>
  Embedding of the hinge joint adapter (\<^verbatim>\<open>src/unnamed/part_000\<close>). A C++ \<^verbatim>\<open>double\<close> is either
  the sentinel \<^verbatim>\<open>SimTK::NaN\<close> or an ordinary value; the joint only copies and returns such
  values and never computes with them. An \<^verbatim>\<open>unsigned int\<close> index is a natural number: the
  joint only compares it and counts up to a vector's size.
\<close>

datatype double = NaN | Val real

datatype Angle = Angle double

datatype Vector3 = Vector3 double double double

text \<open>The console: \<^verbatim>\<open>gzerr\<close> writes an error message, \<^verbatim>\<open>gzdbg\<close> a diagnostic one.\<close>

datatype log_msg = gzerr string | gzdbg string

text \<open>
  Modelled from the spec: the solver state object and the mobilizer handle are the external
  solver's (Simbody's) and are in no source file. Following the spec's section on external
  interfaces, a \<^verbatim>\<open>SimTK::State\<close> holds, for the joint's mobilizer, a coordinate value and a
  velocity value per zero-based mobility index, and reports their counts; the applied mobility
  forces of \<^verbatim>\<open>discreteForces\<close> live in the same state. A read or write through an empty
  handle, or at an index beyond the count, is an error value.
\<close>

record State =
  stateQ :: "double list"
  stateU :: "double list"
  stateMobilityForces :: "double list"

record MobilizedBody =
  isEmptyHandle :: bool

datatype solver_error = EmptyHandle | IndexOutOfRange | NullPointer

definition getNumQ :: "MobilizedBody \<Rightarrow> State \<Rightarrow> nat" where
  "getNumQ m s = length (stateQ s)"

definition getNumU :: "MobilizedBody \<Rightarrow> State \<Rightarrow> nat" where
  "getNumU m s = length (stateU s)"

definition getOneQ :: "MobilizedBody \<Rightarrow> State \<Rightarrow> nat \<Rightarrow> solver_error + double" where
  "getOneQ m s i =
     (if isEmptyHandle m then Inl EmptyHandle
      else if i < length (stateQ s) then Inr (stateQ s ! i)
      else Inl IndexOutOfRange)"

definition getOneU :: "MobilizedBody \<Rightarrow> State \<Rightarrow> nat \<Rightarrow> solver_error + double" where
  "getOneU m s i =
     (if isEmptyHandle m then Inl EmptyHandle
      else if i < length (stateU s) then Inr (stateU s ! i)
      else Inl IndexOutOfRange)"

definition setOneQ :: "MobilizedBody \<Rightarrow> State \<Rightarrow> nat \<Rightarrow> double \<Rightarrow> solver_error + State" where
  "setOneQ m s i v =
     (if isEmptyHandle m then Inl EmptyHandle
      else if i < length (stateQ s) then Inr (s\<lparr>stateQ := (stateQ s)[i := v]\<rparr>)
      else Inl IndexOutOfRange)"

definition setOneU :: "MobilizedBody \<Rightarrow> State \<Rightarrow> nat \<Rightarrow> double \<Rightarrow> solver_error + State" where
  "setOneU m s i v =
     (if isEmptyHandle m then Inl EmptyHandle
      else if i < length (stateU s) then Inr (s\<lparr>stateU := (stateU s)[i := v]\<rparr>)
      else Inl IndexOutOfRange)"

definition setOneMobilityForce ::
    "State \<Rightarrow> MobilizedBody \<Rightarrow> nat \<Rightarrow> double \<Rightarrow> solver_error + State" where
  "setOneMobilityForce s m i f =
     (if isEmptyHandle m then Inl EmptyHandle
      else if i < length (stateMobilityForces s)
        then Inr (s\<lparr>stateMobilityForces := (stateMobilityForces s)[i := f]\<rparr>)
      else Inl IndexOutOfRange)"

text \<open>
  A freshly constructed state object for a mobilizer with \<open>nq\<close> coordinates and \<open>nu\<close>
  velocities: every entry is zero.
\<close>

definition zeroState :: "nat \<Rightarrow> nat \<Rightarrow> State" where
  "zeroState nq nu =
     \<lparr>stateQ = replicate nq (Val 0), stateU = replicate nu (Val 0),
      stateMobilityForces = replicate nu (Val 0)\<rparr>"

text \<open>
  The physics engine object behind \<^verbatim>\<open>this->simbodyPhysics\<close>: its two readiness flags and the
  integrator's state (\<^verbatim>\<open>integ->getState()\<close> reads it, \<^verbatim>\<open>integ->updAdvancedState()\<close> writes it).
\<close>

record SimbodyPhysics =
  simbodyPhysicsInitialized :: bool
  simbodyPhysicsStepped :: bool
  integState :: State

text \<open>
  The joint's own members. \<^verbatim>\<open>GetAngleCount()\<close> is declared by the hinge joint's base class,
  outside the sources, and is a field here.
\<close>

record SimbodyHingeJoint =
  GetAngleCount :: nat
  physicsInitialized :: bool
  mobod :: MobilizedBody
  simbodyQ :: "double list"
  simbodyU :: "double list"

text \<open>
  What a member function of the joint can touch: the joint, the physics engine its pointer
  \<^verbatim>\<open>simbodyPhysics\<close> refers to (\<open>None\<close> for a null pointer) and the console.
\<close>

record world =
  joint :: SimbodyHingeJoint
  simbodyPhysics :: "SimbodyPhysics option"
  console :: "log_msg list"

text \<open>The constructor: only \<^verbatim>\<open>physicsInitialized\<close> is set; the handle and both vectors start empty.\<close>

definition newSimbodyHingeJoint :: "nat \<Rightarrow> SimbodyHingeJoint" where
  "newSimbodyHingeJoint n =
     \<lparr>GetAngleCount = n, physicsInitialized = False, mobod = \<lparr>isEmptyHandle = True\<rparr>,
      simbodyQ = [], simbodyU = []\<rparr>"

definition put :: "log_msg \<Rightarrow> world \<Rightarrow> world" where
  "put msg w = w\<lparr>console := console w @ [msg]\<rparr>"

text \<open>\<^verbatim>\<open>SimbodyHingeJoint::SetVelocity\<close>.\<close>

definition SetVelocity :: "nat \<Rightarrow> double \<Rightarrow> world \<Rightarrow> solver_error + world" where
  "SetVelocity index rate w =
     (if index < GetAngleCount (joint w) then
        (case simbodyPhysics w of
           None \<Rightarrow> Inl NullPointer
         | Some p \<Rightarrow>
             (case setOneU (mobod (joint w)) (integState p) index rate of
                Inl e \<Rightarrow> Inl e
              | Inr s' \<Rightarrow> Inr (w\<lparr>simbodyPhysics := Some (p\<lparr>integState := s'\<rparr>)\<rparr>)))
      else Inr (put (gzerr (''SetVelocity _index too large.'' @ [CHR 0x0A])) w))"

text \<open>\<^verbatim>\<open>SimbodyHingeJoint::GetVelocity\<close>. The \<^verbatim>\<open>&&\<close> reads the engine only when the joint's own flag is set.\<close>

definition GetVelocity :: "nat \<Rightarrow> world \<Rightarrow> solver_error + (double \<times> world)" where
  "GetVelocity index w =
     (if index < GetAngleCount (joint w) then
        (if physicsInitialized (joint w) then
           (case simbodyPhysics w of
              None \<Rightarrow> Inl NullPointer
            | Some p \<Rightarrow>
                if simbodyPhysicsInitialized p then
                  (case getOneU (mobod (joint w)) (integState p) index of
                     Inl e \<Rightarrow> Inl e
                   | Inr v \<Rightarrow> Inr (v, w))
                else
                  Inr (Val 0.0,
                    put (gzdbg (''GetVelocity() simbody not yet initialized, ''
                      @ ''initial velocity should be zero until restart from ''
                      @ ''state has been implemented.'' @ [CHR 0x0A])) w))
         else
           Inr (Val 0.0,
             put (gzdbg (''GetVelocity() simbody not yet initialized, ''
               @ ''initial velocity should be zero until restart from ''
               @ ''state has been implemented.'' @ [CHR 0x0A])) w))
      else
        Inr (NaN, put (gzerr (''Invalid index for joint, returning NaN'' @ [CHR 0x0A])) w))"

text \<open>\<^verbatim>\<open>SimbodyHingeJoint::SetForceImpl\<close>: one guarded write, with no other branch.\<close>

definition SetForceImpl :: "nat \<Rightarrow> double \<Rightarrow> world \<Rightarrow> solver_error + world" where
  "SetForceImpl index torque w =
     (if index < GetAngleCount (joint w) \<and> physicsInitialized (joint w) then
        (case simbodyPhysics w of
           None \<Rightarrow> Inl NullPointer
         | Some p \<Rightarrow>
             (case setOneMobilityForce (integState p) (mobod (joint w)) index torque of
                Inl e \<Rightarrow> Inl e
              | Inr s' \<Rightarrow> Inr (w\<lparr>simbodyPhysics := Some (p\<lparr>integState := s'\<rparr>)\<rparr>)))
      else Inr w)"

text \<open>
  \<^verbatim>\<open>SimbodyHingeJoint::GetGlobalAxis\<close>. The two axis computations are the solver's and the base
  class's, outside the sources, and are parameters: \<open>outboardZ\<close> is the outboard frame's z axis
  expressed in the ground frame for a solver state, \<open>localAxis\<close> is
  \<^verbatim>\<open>GetAxisFrame(i).RotateVector(GetLocalAxis(i))\<close>. The first branch is taken when the engine
  pointer is set, the engine has stepped and the index is in range; \<open>stepped\<close> holds the engine
  in that case.
\<close>

definition GetGlobalAxis ::
    "(State \<Rightarrow> Vector3) \<Rightarrow> (nat \<Rightarrow> Vector3) \<Rightarrow> nat \<Rightarrow> world \<Rightarrow> solver_error + (Vector3 \<times> world)" where
  "GetGlobalAxis outboardZ localAxis index w =
     (let stepped =
        (case simbodyPhysics w of
           None \<Rightarrow> None
         | Some p \<Rightarrow>
             if simbodyPhysicsStepped p \<and> index < GetAngleCount (joint w) then Some p
             else None)
      in case stepped of
           Some p \<Rightarrow>
             if isEmptyHandle (mobod (joint w)) then Inl EmptyHandle
             else Inr (outboardZ (integState p), w)
         | None \<Rightarrow>
             if index \<ge> GetAngleCount (joint w) then
               Inr (Vector3 NaN NaN NaN, put (gzerr (''index out of bound'' @ [CHR 0x0A])) w)
             else
               Inr (localAxis index,
                 put (gzdbg (''GetGlobalAxis() sibmody physics engine not initialized yet, ''
                   @ ''use local axis and initial pose to compute ''
                   @ ''global axis.'' @ [CHR 0x0A])) w))"

text \<open>\<^verbatim>\<open>SimbodyHingeJoint::GetAngleImpl\<close>.\<close>

definition GetAngleImpl :: "nat \<Rightarrow> world \<Rightarrow> solver_error + (Angle \<times> world)" where
  "GetAngleImpl index w =
     (if index < GetAngleCount (joint w) then
        (if physicsInitialized (joint w) then
           (case simbodyPhysics w of
              None \<Rightarrow> Inl NullPointer
            | Some p \<Rightarrow>
                if simbodyPhysicsInitialized p then
                  (case getOneQ (mobod (joint w)) (integState p) index of
                     Inl e \<Rightarrow> Inl e
                   | Inr v \<Rightarrow> Inr (Angle v, w))
                else
                  Inr (Angle (Val 0.0),
                    put (gzdbg (''GetAngleImpl() simbody not yet initialized, ''
                      @ ''initial angle should be zero until <initial_angle> ''
                      @ ''is implemented.'' @ [CHR 0x0A])) w))
         else
           Inr (Angle (Val 0.0),
             put (gzdbg (''GetAngleImpl() simbody not yet initialized, ''
               @ ''initial angle should be zero until <initial_angle> ''
               @ ''is implemented.'' @ [CHR 0x0A])) w))
      else
        Inr (Angle NaN, put (gzerr (''index out of bound'' @ [CHR 0x0A])) w))"

text \<open>
  The four loops of \<^verbatim>\<open>SaveSimbodyState\<close> and \<^verbatim>\<open>RestoreSimbodyState\<close>: the index runs from its
  start while it is below the cache vector's size.
\<close>

function saveQ :: "MobilizedBody \<Rightarrow> State \<Rightarrow> nat \<Rightarrow> double list \<Rightarrow> solver_error + double list" where
  "saveQ m s i qs =
     (if i < length qs then
        (case getOneQ m s i of
           Inl e \<Rightarrow> Inl e
         | Inr v \<Rightarrow> saveQ m s (Suc i) (qs[i := v]))
      else Inr qs)"
  by pat_completeness auto
termination
  by (relation "measure (\<lambda>(m, s, i, qs). length qs - i)") auto

function saveU :: "MobilizedBody \<Rightarrow> State \<Rightarrow> nat \<Rightarrow> double list \<Rightarrow> solver_error + double list" where
  "saveU m s i us =
     (if i < length us then
        (case getOneU m s i of
           Inl e \<Rightarrow> Inl e
         | Inr v \<Rightarrow> saveU m s (Suc i) (us[i := v]))
      else Inr us)"
  by pat_completeness auto
termination
  by (relation "measure (\<lambda>(m, s, i, us). length us - i)") auto

function restoreQ :: "MobilizedBody \<Rightarrow> double list \<Rightarrow> nat \<Rightarrow> State \<Rightarrow> solver_error + State" where
  "restoreQ m qs i s =
     (if i < length qs then
        (case setOneQ m s i (qs ! i) of
           Inl e \<Rightarrow> Inl e
         | Inr s' \<Rightarrow> restoreQ m qs (Suc i) s')
      else Inr s)"
  by pat_completeness auto
termination
  by (relation "measure (\<lambda>(m, qs, i, s). length qs - i)") auto

function restoreU :: "MobilizedBody \<Rightarrow> double list \<Rightarrow> nat \<Rightarrow> State \<Rightarrow> solver_error + State" where
  "restoreU m us i s =
     (if i < length us then
        (case setOneU m s i (us ! i) of
           Inl e \<Rightarrow> Inl e
         | Inr s' \<Rightarrow> restoreU m us (Suc i) s')
      else Inr s)"
  by pat_completeness auto
termination
  by (relation "measure (\<lambda>(m, us, i, s). length us - i)") auto

declare saveQ.simps [simp del] saveU.simps [simp del]
declare restoreQ.simps [simp del] restoreU.simps [simp del]

text \<open>
  \<^verbatim>\<open>std::vector::resize\<close> on an empty vector of doubles gives that many zeros; the source
  resizes only when the vector is empty.
\<close>

definition resizeIfEmpty :: "double list \<Rightarrow> nat \<Rightarrow> double list" where
  "resizeIfEmpty xs n = (if xs = [] then replicate n (Val 0) else xs)"

text \<open>\<^verbatim>\<open>SimbodyHingeJoint::SaveSimbodyState\<close>.\<close>

definition SaveSimbodyState :: "State \<Rightarrow> SimbodyHingeJoint \<Rightarrow> solver_error + SimbodyHingeJoint" where
  "SaveSimbodyState s j =
     (if \<not> isEmptyHandle (mobod j) then
        (let q0 = resizeIfEmpty (simbodyQ j) (getNumQ (mobod j) s);
             u0 = resizeIfEmpty (simbodyU j) (getNumU (mobod j) s)
         in case saveQ (mobod j) s 0 q0 of
              Inl e \<Rightarrow> Inl e
            | Inr q1 \<Rightarrow>
                (case saveU (mobod j) s 0 u0 of
                   Inl e \<Rightarrow> Inl e
                 | Inr u1 \<Rightarrow> Inr (j\<lparr>simbodyQ := q1, simbodyU := u1\<rparr>)))
      else Inr j)"

text \<open>\<^verbatim>\<open>SimbodyHingeJoint::RestoreSimbodyState\<close>: the state is passed by reference and returned.\<close>

definition RestoreSimbodyState :: "State \<Rightarrow> SimbodyHingeJoint \<Rightarrow> solver_error + State" where
  "RestoreSimbodyState s j =
     (if \<not> isEmptyHandle (mobod j) then
        (case restoreQ (mobod j) (simbodyQ j) 0 s of
           Inl e \<Rightarrow> Inl e
         | Inr s1 \<Rightarrow> restoreU (mobod j) (simbodyU j) 0 s1)
      else Inr s)"

text \<open>
  The readiness test that \<^verbatim>\<open>GetVelocity\<close> and \<^verbatim>\<open>GetAngleImpl\<close> both write,
  \<^verbatim>\<open>this->physicsInitialized && this->simbodyPhysics->simbodyPhysicsInitialized\<close>, evaluated on
  its own: the engine pointer is followed only when the joint's flag is set.
\<close>

definition solverInitialized :: "world \<Rightarrow> solver_error + bool" where
  "solverInitialized w =
     (if physicsInitialized (joint w) then
        (case simbodyPhysics w of
           None \<Rightarrow> Inl NullPointer
         | Some p \<Rightarrow> Inr (simbodyPhysicsInitialized p))
      else Inr False)"

text \<open>
  The data model's invariant of the cache for a solver state: each vector is still empty, or
  has the size the solver reports.
\<close>

definition cache_sized :: "SimbodyHingeJoint \<Rightarrow> State \<Rightarrow> bool" where
  "cache_sized j s \<longleftrightarrow>
     (simbodyQ j = [] \<or> length (simbodyQ j) = getNumQ (mobod j) s) \<and>
     (simbodyU j = [] \<or> length (simbodyU j) = getNumU (mobod j) s)"

section \<open>Properties of the controller\<close>

subsection \<open>The update period\<close>

text \<open>
  Claim C6. \<^verbatim>\<open>SetUpdateRate(rate)\<close> sets the period to 0 for a zero rate and to \<open>1 / rate\<close>
  otherwise, stores the rate, so the stored rate and the period derived from it agree, and
  changes nothing else; a rate of 0 gives period 0 and a rate of 10 gives period 0.1.
\<close>

theorem SetUpdateRate_period:
  "updatePeriod (SetUpdateRate rate c) = (if rate = 0 then 0 else 1 / rate)
   \<and> updateRateP (SetUpdateRate rate c) = rate
   \<and> updatePeriod (SetUpdateRate rate c) =
       (if updateRateP (SetUpdateRate rate c) = 0 then 0
        else 1 / updateRateP (SetUpdateRate rate c))
   \<and> updatePeriod (SetUpdateRate 0 c) = 0
   \<and> updatePeriod (SetUpdateRate 10 c) = 0.1
   \<and> alwaysOnP (SetUpdateRate rate c) = alwaysOnP c
   \<and> lastUpdate (SetUpdateRate rate c) = lastUpdate c
   \<and> ifaces (SetUpdateRate rate c) = ifaces c
   \<and> childCalls (SetUpdateRate rate c) = childCalls c"
  by (simp add: SetUpdateRate_def)

subsection \<open>Activity\<close>

text \<open>
  The loop of \<^verbatim>\<open>IsConnected\<close> over interfaces that are all in the store finds an open one
  exactly when one exists.
\<close>

lemma anyIfaceOpen_iff:
  "set ps \<subseteq> dom h \<Longrightarrow>
   anyIfaceOpen h ps = Inr (\<exists>p \<in> set ps. \<exists>i. h p = Some i \<and> GetOpenCount i \<ge> 1)"
proof (induction ps)
  case Nil
  show ?case by simp
next
  case (Cons p ps)
  then obtain i where i: "h p = Some i" by auto
  from Cons have IH:
    "anyIfaceOpen h ps = Inr (\<exists>p \<in> set ps. \<exists>i. h p = Some i \<and> GetOpenCount i \<ge> 1)"
    by simp
  show ?case
  proof (cases "GetOpenCount i > 0")
    case True
    then show ?thesis using i by auto
  next
    case False
    then show ?thesis using i IH by auto
  qed
qed

text \<open>
  Claim C7. For a controller whose attached interfaces are all in the store,
  \<^verbatim>\<open>IsConnected\<close> (the spec's \<^verbatim>\<open>IsActive\<close>) returns true exactly when \<^verbatim>\<open>alwaysOn\<close> is set or
  some attached interface reports an open count of at least one. With no interface attached
  the result is \<^verbatim>\<open>alwaysOn\<close>; with one interface at count 0 and \<^verbatim>\<open>alwaysOn\<close> false it is
  false, and raising that interface's count to 1, the controller itself unchanged, makes it
  true.
\<close>

theorem IsConnected_iff:
  assumes "set (ifaces c) \<subseteq> dom h"
  shows "IsConnected h c =
           Inr (alwaysOnP c \<or> (\<exists>p \<in> set (ifaces c). \<exists>i. h p = Some i \<and> GetOpenCount i \<ge> 1))
    \<and> (ifaces c = [] \<longrightarrow> IsConnected h c = Inr (alwaysOnP c))
    \<and> (\<forall>p i. ifaces c = [p] \<and> \<not> alwaysOnP c \<and> h p = Some i \<and> GetOpenCount i = 0 \<longrightarrow>
          IsConnected h c = Inr False
          \<and> IsConnected (h(p \<mapsto> i\<lparr>GetOpenCount := 1\<rparr>)) c = Inr True)"
proof (intro conjI allI impI)
  show "IsConnected h c =
           Inr (alwaysOnP c \<or> (\<exists>p \<in> set (ifaces c). \<exists>i. h p = Some i \<and> GetOpenCount i \<ge> 1))"
    using anyIfaceOpen_iff [OF assms] by (simp add: IsConnected_def)
  show "IsConnected h c = Inr (alwaysOnP c)" if "ifaces c = []"
    using that by (simp add: IsConnected_def)
  fix p i
  assume a: "ifaces c = [p] \<and> \<not> alwaysOnP c \<and> h p = Some i \<and> GetOpenCount i = 0"
  then show "IsConnected h c = Inr False"
    by (simp add: IsConnected_def)
  from a show "IsConnected (h(p \<mapsto> i\<lparr>GetOpenCount := 1\<rparr>)) c = Inr True"
    by (simp add: IsConnected_def)
qed

theorem IsConnected_iff_witness:
  "set (ifaces \<lparr>alwaysOnP = False, updateRateP = 10, updatePeriod = 0.1, lastUpdate = 0,
                ifaces = [7], childCalls = []\<rparr>)
     \<subseteq> dom [7 \<mapsto> \<lparr>GetType = ''laser'', GetId = ''robot::laser_iface'', GetOpenCount = 0\<rparr>]
   \<and> IsConnected [7 \<mapsto> \<lparr>GetType = ''laser'', GetId = ''robot::laser_iface'', GetOpenCount = 0\<rparr>]
        \<lparr>alwaysOnP = False, updateRateP = 10, updatePeriod = 0.1, lastUpdate = 0,
         ifaces = [7], childCalls = []\<rparr> = Inr False
   \<and> IsConnected [7 \<mapsto> \<lparr>GetType = ''laser'', GetId = ''robot::laser_iface'', GetOpenCount = 1\<rparr>]
        \<lparr>alwaysOnP = False, updateRateP = 10, updatePeriod = 0.1, lastUpdate = 0,
         ifaces = [7], childCalls = []\<rparr> = Inr True"
  using IsConnected_iff [of
      "\<lparr>alwaysOnP = False, updateRateP = 10, updatePeriod = 0.1, lastUpdate = 0,
        ifaces = [7], childCalls = []\<rparr>"
      "[7 \<mapsto> \<lparr>GetType = ''laser'', GetId = ''robot::laser_iface'', GetOpenCount = 0\<rparr>]"]
  by simp

subsection \<open>Finalisation\<close>

text \<open>
  Deleting a vector of distinct live interfaces succeeds and frees exactly those addresses.
\<close>

lemma deleteIfaces_live:
  "distinct ps \<Longrightarrow> set ps \<subseteq> dom h \<Longrightarrow>
   \<exists>h'. deleteIfaces h ps = Inr h' \<and> (\<forall>p. h' p = (if p \<in> set ps then None else h p))"
proof (induction ps arbitrary: h)
  case Nil
  show ?case by simp
next
  case (Cons p ps)
  then obtain i where i: "h p = Some i" by auto
  from Cons.prems have "distinct ps" and "set ps \<subseteq> dom (h(p := None))"
    by auto
  from Cons.IH [OF this] obtain h' where
    h': "deleteIfaces (h(p := None)) ps = Inr h'"
        "\<forall>q. h' q = (if q \<in> set ps then None else (h(p := None)) q)"
    by blast
  from h' i show ?case by auto
qed

text \<open>
  Claim C9. For a controller with \<^verbatim>\<open>alwaysOn\<close> false whose interface vector holds distinct
  live interfaces, \<^verbatim>\<open>Fini\<close> returns, has deleted every attached interface from the store
  (and nothing else), has cleared the interface vector and left \<^verbatim>\<open>alwaysOn\<close> as it was; from
  then on \<^verbatim>\<open>IsConnected\<close> returns false whatever the store holds, so whatever the interfaces
  and their open counts were before.
\<close>

theorem Fini_then_not_connected:
  assumes "\<not> alwaysOnP c" and "ifaces_live h c"
  shows "\<exists>h' c'. Fini h c = Inr (h', c')
           \<and> ifaces c' = []
           \<and> (\<forall>p. h' p = (if p \<in> set (ifaces c) then None else h p))
           \<and> alwaysOnP c' = alwaysOnP c
           \<and> (\<forall>h2. IsConnected h2 c' = Inr False)"
proof -
  from assms(2) have "distinct (ifaces c)" and "set (ifaces c) \<subseteq> dom h"
    by (auto simp: ifaces_live_def list_all_iff)
  from deleteIfaces_live [OF this] obtain h' where
    h': "deleteIfaces h (ifaces c) = Inr h'"
        "\<forall>p. h' p = (if p \<in> set (ifaces c) then None else h p)"
    by blast
  let ?c' = "c\<lparr>ifaces := [], childCalls := childCalls c @ [FiniChild]\<rparr>"
  have "Fini h c = Inr (h', ?c')"
    using h'(1) by (simp add: Fini_def)
  moreover have "\<forall>h2. IsConnected h2 ?c' = Inr False"
    using assms(1) by (simp add: IsConnected_def)
  ultimately show ?thesis using h'(2) by simp
qed

theorem Fini_then_not_connected_witness:
  "\<not> alwaysOnP \<lparr>alwaysOnP = False, updateRateP = 10, updatePeriod = 0.1, lastUpdate = 0,
       ifaces = [1, 2], childCalls = []\<rparr>
   \<and> ifaces_live
        [1 \<mapsto> \<lparr>GetType = ''laser'', GetId = ''a'', GetOpenCount = 3\<rparr>,
         2 \<mapsto> \<lparr>GetType = ''position'', GetId = ''b'', GetOpenCount = 0\<rparr>]
        \<lparr>alwaysOnP = False, updateRateP = 10, updatePeriod = 0.1, lastUpdate = 0,
         ifaces = [1, 2], childCalls = []\<rparr>
   \<and> IsConnected
        [1 \<mapsto> \<lparr>GetType = ''laser'', GetId = ''a'', GetOpenCount = 3\<rparr>,
         2 \<mapsto> \<lparr>GetType = ''position'', GetId = ''b'', GetOpenCount = 0\<rparr>]
        \<lparr>alwaysOnP = False, updateRateP = 10, updatePeriod = 0.1, lastUpdate = 0,
         ifaces = [1, 2], childCalls = []\<rparr> = Inr True
   \<and> (case Fini
        [1 \<mapsto> \<lparr>GetType = ''laser'', GetId = ''a'', GetOpenCount = 3\<rparr>,
         2 \<mapsto> \<lparr>GetType = ''position'', GetId = ''b'', GetOpenCount = 0\<rparr>]
        \<lparr>alwaysOnP = False, updateRateP = 10, updatePeriod = 0.1, lastUpdate = 0,
         ifaces = [1, 2], childCalls = []\<rparr> of
         Inl e \<Rightarrow> False
       | Inr (h', c') \<Rightarrow> ifaces c' = [] \<and> h' 1 = None \<and> h' 2 = None
           \<and> IsConnected
                [1 \<mapsto> \<lparr>GetType = ''laser'', GetId = ''a'', GetOpenCount = 3\<rparr>,
                 2 \<mapsto> \<lparr>GetType = ''position'', GetId = ''b'', GetOpenCount = 0\<rparr>] c'
               = Inr False)"
proof -
  let ?c = "\<lparr>alwaysOnP = False, updateRateP = 10, updatePeriod = 0.1, lastUpdate = 0,
         ifaces = [1, 2], childCalls = []\<rparr>"
  let ?h = "[1 \<mapsto> \<lparr>GetType = ''laser'', GetId = ''a'', GetOpenCount = 3\<rparr>,
         2 \<mapsto> \<lparr>GetType = ''position'', GetId = ''b'', GetOpenCount = 0\<rparr>]"
  have a: "\<not> alwaysOnP ?c" by simp
  have b: "ifaces_live ?h ?c" by (simp add: ifaces_live_def)
  have c: "IsConnected ?h ?c = Inr True" by (simp add: IsConnected_def)
  from Fini_then_not_connected [OF a b] a b c show ?thesis
    by auto
qed

subsection \<open>The update gate\<close>

text \<open>
  Claim C1. For a controller for which \<^verbatim>\<open>IsConnected\<close> returns true and a physics step that
  is not zero, \<^verbatim>\<open>Update\<close> calls \<^verbatim>\<open>UpdateChild\<close> if and only if
  \<open>\<lfloor>(simTime - lastUpdate - updatePeriod) / step\<rfloor> \<ge> 0\<close>; when it does, the only other change
  is that \<^verbatim>\<open>lastUpdate\<close> becomes the simulation time, and when it does not, the controller
  is unchanged. With \<^verbatim>\<open>lastUpdate\<close> 0, period 0.1 and step 0.01, an update at time 0.09 leaves
  the controller unchanged and one at time 0.10 runs and sets \<^verbatim>\<open>lastUpdate\<close> to 0.10.
\<close>

theorem Update_gate:
  assumes "IsConnected h c = Inr True" and "GetStepTime sim \<noteq> 0"
  shows "\<exists>c'. Update sim h c = Inr c'
     \<and> (childCalls c' = childCalls c @ [UpdateChild] \<longleftrightarrow>
          0 \<le> \<lfloor>(GetSimTime sim - lastUpdate c - updatePeriod c) / GetStepTime sim\<rfloor>)
     \<and> (0 \<le> \<lfloor>(GetSimTime sim - lastUpdate c - updatePeriod c) / GetStepTime sim\<rfloor> \<longrightarrow>
          c' = c\<lparr>childCalls := childCalls c @ [UpdateChild], lastUpdate := GetSimTime sim\<rparr>)
     \<and> (\<not> 0 \<le> \<lfloor>(GetSimTime sim - lastUpdate c - updatePeriod c) / GetStepTime sim\<rfloor> \<longrightarrow>
          c' = c)
     \<and> (lastUpdate c = 0 \<and> updatePeriod c = 0.1 \<and> GetStepTime sim = 0.01
          \<and> GetSimTime sim = 0.09 \<longrightarrow> c' = c)
     \<and> (lastUpdate c = 0 \<and> updatePeriod c = 0.1 \<and> GetStepTime sim = 0.01
          \<and> GetSimTime sim = 0.10 \<longrightarrow>
          c' = c\<lparr>childCalls := childCalls c @ [UpdateChild], lastUpdate := 0.10\<rparr>)"
proof -
  let ?q = "(GetSimTime sim - lastUpdate c - updatePeriod c) / GetStepTime sim"
  have fl: "0 \<le> \<lfloor>?q\<rfloor> \<longleftrightarrow> 0 \<le> ?q"
    by (rule zero_le_floor)
  have c1: "\<not> 0 \<le> ?q"
    if "lastUpdate c = 0 \<and> updatePeriod c = 0.1 \<and> GetStepTime sim = 0.01
          \<and> GetSimTime sim = 0.09"
  proof -
    from that have a: "lastUpdate c = 0" "updatePeriod c = 0.1" "GetStepTime sim = 0.01"
      "GetSimTime sim = 0.09" by blast+
    show ?thesis unfolding a by simp
  qed
  have c2: "0 \<le> ?q \<and> GetSimTime sim = 0.10"
    if "lastUpdate c = 0 \<and> updatePeriod c = 0.1 \<and> GetStepTime sim = 0.01
          \<and> GetSimTime sim = 0.10"
  proof -
    from that have a: "lastUpdate c = 0" "updatePeriod c = 0.1" "GetStepTime sim = 0.01"
      "GetSimTime sim = 0.10" by blast+
    show ?thesis unfolding a by simp
  qed
  show ?thesis
  proof (cases "0 \<le> ?q")
    case True
    then have "Update sim h c =
        Inr (c\<lparr>childCalls := childCalls c @ [UpdateChild], lastUpdate := GetSimTime sim\<rparr>)"
      using assms(1) by (simp add: Update_def)
    with True fl c1 c2 show ?thesis by auto
  next
    case False
    then have "Update sim h c = Inr c"
      using assms(1) by (simp add: Update_def)
    with False fl c1 c2 show ?thesis by auto
  qed
qed

theorem Update_gate_witness:
  "IsConnected
      [7 \<mapsto> \<lparr>GetType = ''position'', GetId = ''robot::position_iface'', GetOpenCount = 2\<rparr>]
      \<lparr>alwaysOnP = False, updateRateP = 10, updatePeriod = 0.1, lastUpdate = 0,
       ifaces = [7], childCalls = []\<rparr> = Inr True
   \<and> GetStepTime \<lparr>GetSimTime = 0.10, GetStepTime = 0.01\<rparr> \<noteq> 0
   \<and> Update \<lparr>GetSimTime = 0.10, GetStepTime = 0.01\<rparr>
      [7 \<mapsto> \<lparr>GetType = ''position'', GetId = ''robot::position_iface'', GetOpenCount = 2\<rparr>]
      \<lparr>alwaysOnP = False, updateRateP = 10, updatePeriod = 0.1, lastUpdate = 0,
       ifaces = [7], childCalls = []\<rparr>
     = Inr \<lparr>alwaysOnP = False, updateRateP = 10, updatePeriod = 0.1, lastUpdate = 0.10,
            ifaces = [7], childCalls = [UpdateChild]\<rparr>
   \<and> Update \<lparr>GetSimTime = 0.09, GetStepTime = 0.01\<rparr>
      [7 \<mapsto> \<lparr>GetType = ''position'', GetId = ''robot::position_iface'', GetOpenCount = 2\<rparr>]
      \<lparr>alwaysOnP = False, updateRateP = 10, updatePeriod = 0.1, lastUpdate = 0,
       ifaces = [7], childCalls = []\<rparr>
     = Inr \<lparr>alwaysOnP = False, updateRateP = 10, updatePeriod = 0.1, lastUpdate = 0,
            ifaces = [7], childCalls = []\<rparr>"
proof -
  let ?c = "\<lparr>alwaysOnP = False, updateRateP = 10, updatePeriod = 0.1, lastUpdate = 0,
       ifaces = [7], childCalls = []\<rparr>"
  have conn: "IsConnected
      [7 \<mapsto> \<lparr>GetType = ''position'', GetId = ''robot::position_iface'', GetOpenCount = 2\<rparr>] ?c = Inr True"
    by (simp add: IsConnected_def)
  have dt: "\<And>t. GetStepTime \<lparr>GetSimTime = t, GetStepTime = 0.01\<rparr> \<noteq> 0"
    by simp
  from Update_gate [OF conn dt, of "0.10"] Update_gate [OF conn dt, of "0.09"] conn
  show ?thesis by auto
qed

section \<open>Properties of the joint state cache\<close>

subsection \<open>The copy loops\<close>

text \<open>
  The save loop keeps the vector's length, fails only by reading beyond the solver's count,
  and otherwise overwrites the entries from its start index on with the solver's values. The
  restore loop writes the cached entries from its start index on into the state.
\<close>

lemma saveQ_length: "saveQ m s i qs = Inr qs' \<Longrightarrow> length qs' = length qs"
proof (induction m s i qs rule: saveQ.induct)
  case (1 m s i qs)
  show ?case
  proof (cases "i < length qs")
    case True
    with "1.prems" obtain v where v: "getOneQ m s i = Inr v"
      and r: "saveQ m s (Suc i) (qs[i := v]) = Inr qs'"
      by (auto simp: saveQ.simps [of m s i qs] split: sum.splits)
    from "1.IH" [OF True v r] show ?thesis by simp
  next
    case False
    with "1.prems" show ?thesis by (simp add: saveQ.simps [of m s i qs])
  qed
qed

lemma saveQ_Inl:
  "saveQ m s i qs = Inl e \<Longrightarrow> \<not> isEmptyHandle m \<Longrightarrow>
   e = IndexOutOfRange \<and> length (stateQ s) < length qs"
proof (induction m s i qs rule: saveQ.induct)
  case (1 m s i qs)
  show ?case
  proof (cases "i < length qs")
    case True
    show ?thesis
    proof (cases "getOneQ m s i")
      case (Inl e')
      with "1.prems" True have "e' = e" by (simp add: saveQ.simps [of m s i qs])
      with Inl "1.prems"(2) True show ?thesis
        by (auto simp: getOneQ_def split: if_splits)
    next
      case (Inr v)
      with "1.prems" True have "saveQ m s (Suc i) (qs[i := v]) = Inl e"
        by (simp add: saveQ.simps [of m s i qs])
      from "1.IH" [OF True Inr this "1.prems"(2)] show ?thesis by simp
    qed
  next
    case False
    with "1.prems" show ?thesis by (simp add: saveQ.simps [of m s i qs])
  qed
qed

lemma saveQ_copy:
  "\<not> isEmptyHandle m \<Longrightarrow> length qs \<le> length (stateQ s) \<Longrightarrow>
   saveQ m s i qs = Inr (take i qs @ drop i (take (length qs) (stateQ s)))"
proof (induction m s i qs rule: saveQ.induct)
  case (1 m s i qs)
  show ?case
  proof (cases "i < length qs")
    case True
    with "1.prems" have v: "getOneQ m s i = Inr (stateQ s ! i)"
      by (simp add: getOneQ_def)
    from "1.prems" have len: "length (qs[i := stateQ s ! i]) \<le> length (stateQ s)"
      by simp
    from "1.IH" [OF True v "1.prems"(1) len]
    have "saveQ m s (Suc i) (qs[i := stateQ s ! i]) =
            Inr (take (Suc i) (qs[i := stateQ s ! i]) @ drop (Suc i) (take (length qs) (stateQ s)))"
      by simp
    moreover have "take (Suc i) (qs[i := stateQ s ! i]) = take i qs @ [stateQ s ! i]"
      using True by (simp add: take_Suc_conv_app_nth)
    moreover have "drop i (take (length qs) (stateQ s)) =
        stateQ s ! i # drop (Suc i) (take (length qs) (stateQ s))"
      using True "1.prems"(2) by (simp add: Cons_nth_drop_Suc [symmetric])
    ultimately show ?thesis
      using True v by (simp add: saveQ.simps [of m s i qs])
  next
    case False
    then show ?thesis by (simp add: saveQ.simps [of m s i qs])
  qed
qed

lemma restoreQ_write:
  "\<not> isEmptyHandle m \<Longrightarrow> length qs \<le> length (stateQ s) \<Longrightarrow> i \<le> length qs \<Longrightarrow>
   restoreQ m qs i s =
     Inr (s\<lparr>stateQ := take i (stateQ s) @ drop i qs @ drop (length qs) (stateQ s)\<rparr>)"
proof (induction m qs i s rule: restoreQ.induct)
  case (1 m qs i s)
  show ?case
  proof (cases "i < length qs")
    case True
    let ?s1 = "s\<lparr>stateQ := (stateQ s)[i := qs ! i]\<rparr>"
    from True "1.prems" have w: "setOneQ m s i (qs ! i) = Inr ?s1"
      by (simp add: setOneQ_def)
    from True "1.prems" have "length qs \<le> length (stateQ ?s1)" "Suc i \<le> length qs"
      by simp_all
    from "1.IH" [OF True w "1.prems"(1) this]
    have "restoreQ m qs (Suc i) ?s1 =
      Inr (?s1\<lparr>stateQ := take (Suc i) (stateQ ?s1) @ drop (Suc i) qs @ drop (length qs) (stateQ ?s1)\<rparr>)" .
    moreover have "take (Suc i) (stateQ ?s1) = take i (stateQ s) @ [qs ! i]"
      using True "1.prems"(2) by (simp add: take_Suc_conv_app_nth)
    moreover have "drop (length qs) (stateQ ?s1) = drop (length qs) (stateQ s)"
      using True by simp
    moreover have "drop i qs = qs ! i # drop (Suc i) qs"
      using True by (simp add: Cons_nth_drop_Suc)
    ultimately show ?thesis
      using True w by (simp add: restoreQ.simps [of m qs i s])
  next
    case False
    then have "restoreQ m qs i s = Inr s"
      by (simp add: restoreQ.simps [of m qs i s])
    moreover from False "1.prems" have "i = length qs" by simp
    ultimately show ?thesis by simp
  qed
qed

lemma saveU_length: "saveU m s i us = Inr us' \<Longrightarrow> length us' = length us"
proof (induction m s i us rule: saveU.induct)
  case (1 m s i us)
  show ?case
  proof (cases "i < length us")
    case True
    with "1.prems" obtain v where v: "getOneU m s i = Inr v"
      and r: "saveU m s (Suc i) (us[i := v]) = Inr us'"
      by (auto simp: saveU.simps [of m s i us] split: sum.splits)
    from "1.IH" [OF True v r] show ?thesis by simp
  next
    case False
    with "1.prems" show ?thesis by (simp add: saveU.simps [of m s i us])
  qed
qed

lemma saveU_Inl:
  "saveU m s i us = Inl e \<Longrightarrow> \<not> isEmptyHandle m \<Longrightarrow>
   e = IndexOutOfRange \<and> length (stateU s) < length us"
proof (induction m s i us rule: saveU.induct)
  case (1 m s i us)
  show ?case
  proof (cases "i < length us")
    case True
    show ?thesis
    proof (cases "getOneU m s i")
      case (Inl e')
      with "1.prems" True have "e' = e" by (simp add: saveU.simps [of m s i us])
      with Inl "1.prems"(2) True show ?thesis
        by (auto simp: getOneU_def split: if_splits)
    next
      case (Inr v)
      with "1.prems" True have "saveU m s (Suc i) (us[i := v]) = Inl e"
        by (simp add: saveU.simps [of m s i us])
      from "1.IH" [OF True Inr this "1.prems"(2)] show ?thesis by simp
    qed
  next
    case False
    with "1.prems" show ?thesis by (simp add: saveU.simps [of m s i us])
  qed
qed

lemma saveU_copy:
  "\<not> isEmptyHandle m \<Longrightarrow> length us \<le> length (stateU s) \<Longrightarrow>
   saveU m s i us = Inr (take i us @ drop i (take (length us) (stateU s)))"
proof (induction m s i us rule: saveU.induct)
  case (1 m s i us)
  show ?case
  proof (cases "i < length us")
    case True
    with "1.prems" have v: "getOneU m s i = Inr (stateU s ! i)"
      by (simp add: getOneU_def)
    from "1.prems" have len: "length (us[i := stateU s ! i]) \<le> length (stateU s)"
      by simp
    from "1.IH" [OF True v "1.prems"(1) len]
    have "saveU m s (Suc i) (us[i := stateU s ! i]) =
            Inr (take (Suc i) (us[i := stateU s ! i]) @ drop (Suc i) (take (length us) (stateU s)))"
      by simp
    moreover have "take (Suc i) (us[i := stateU s ! i]) = take i us @ [stateU s ! i]"
      using True by (simp add: take_Suc_conv_app_nth)
    moreover have "drop i (take (length us) (stateU s)) =
        stateU s ! i # drop (Suc i) (take (length us) (stateU s))"
      using True "1.prems"(2) by (simp add: Cons_nth_drop_Suc [symmetric])
    ultimately show ?thesis
      using True v by (simp add: saveU.simps [of m s i us])
  next
    case False
    then show ?thesis by (simp add: saveU.simps [of m s i us])
  qed
qed

lemma restoreU_write:
  "\<not> isEmptyHandle m \<Longrightarrow> length us \<le> length (stateU s) \<Longrightarrow> i \<le> length us \<Longrightarrow>
   restoreU m us i s =
     Inr (s\<lparr>stateU := take i (stateU s) @ drop i us @ drop (length us) (stateU s)\<rparr>)"
proof (induction m us i s rule: restoreU.induct)
  case (1 m us i s)
  show ?case
  proof (cases "i < length us")
    case True
    let ?s1 = "s\<lparr>stateU := (stateU s)[i := us ! i]\<rparr>"
    from True "1.prems" have w: "setOneU m s i (us ! i) = Inr ?s1"
      by (simp add: setOneU_def)
    from True "1.prems" have "length us \<le> length (stateU ?s1)" "Suc i \<le> length us"
      by simp_all
    from "1.IH" [OF True w "1.prems"(1) this]
    have "restoreU m us (Suc i) ?s1 =
      Inr (?s1\<lparr>stateU := take (Suc i) (stateU ?s1) @ drop (Suc i) us @ drop (length us) (stateU ?s1)\<rparr>)" .
    moreover have "take (Suc i) (stateU ?s1) = take i (stateU s) @ [us ! i]"
      using True "1.prems"(2) by (simp add: take_Suc_conv_app_nth)
    moreover have "drop (length us) (stateU ?s1) = drop (length us) (stateU s)"
      using True by simp
    moreover have "drop i us = us ! i # drop (Suc i) us"
      using True by (simp add: Cons_nth_drop_Suc)
    ultimately show ?thesis
      using True w by (simp add: restoreU.simps [of m us i s])
  next
    case False
    then have "restoreU m us i s = Inr s"
      by (simp add: restoreU.simps [of m us i s])
    moreover from False "1.prems" have "i = length us" by simp
    ultimately show ?thesis by simp
  qed
qed

subsection \<open>The cache invariant\<close>

text \<open>
  A new joint satisfies the cache invariant for every state, and a snapshot keeps it for every
  state with the same counts; a snapshot resizes a vector only when it is empty.
\<close>

lemma newSimbodyHingeJoint_cache_sized: "cache_sized (newSimbodyHingeJoint n) s"
  by (simp add: cache_sized_def newSimbodyHingeJoint_def)

lemma SaveSimbodyState_lengths:
  assumes "SaveSimbodyState s j = Inr j'"
  shows "length (simbodyQ j') =
           (if isEmptyHandle (mobod j) then length (simbodyQ j)
            else length (resizeIfEmpty (simbodyQ j) (getNumQ (mobod j) s)))"
    and "length (simbodyU j') =
           (if isEmptyHandle (mobod j) then length (simbodyU j)
            else length (resizeIfEmpty (simbodyU j) (getNumU (mobod j) s)))"
    and "mobod j' = mobod j"
  using assms
  by (auto simp: SaveSimbodyState_def Let_def split: if_splits sum.splits
        dest: saveQ_length saveU_length)

lemma SaveSimbodyState_cache_sized:
  assumes "cache_sized j s" and "SaveSimbodyState s j = Inr j'"
    and "length (stateQ s2) = length (stateQ s)" and "length (stateU s2) = length (stateU s)"
  shows "cache_sized j' s2"
  using assms(1,3,4) SaveSimbodyState_lengths [OF assms(2)]
  by (auto simp: cache_sized_def getNumQ_def getNumU_def resizeIfEmpty_def split: if_splits)

lemma SaveSimbodyState_sized:
  assumes "\<not> isEmptyHandle (mobod j)" and "cache_sized j s"
  shows "SaveSimbodyState s j = Inr (j\<lparr>simbodyQ := stateQ s, simbodyU := stateU s\<rparr>)"
proof -
  let ?q0 = "resizeIfEmpty (simbodyQ j) (getNumQ (mobod j) s)"
  let ?u0 = "resizeIfEmpty (simbodyU j) (getNumU (mobod j) s)"
  from assms(2) have lq: "length ?q0 = length (stateQ s)" and lu: "length ?u0 = length (stateU s)"
    by (auto simp: cache_sized_def resizeIfEmpty_def getNumQ_def getNumU_def)
  from saveQ_copy [OF assms(1), of ?q0 s 0] lq have "saveQ (mobod j) s 0 ?q0 = Inr (stateQ s)"
    by simp
  moreover from saveU_copy [OF assms(1), of ?u0 s 0] lu
  have "saveU (mobod j) s 0 ?u0 = Inr (stateU s)"
    by simp
  ultimately show ?thesis
    using assms(1) by (simp add: SaveSimbodyState_def Let_def)
qed

lemma RestoreSimbodyState_full:
  assumes "\<not> isEmptyHandle (mobod j)"
    and "length (simbodyQ j) = length (stateQ s)" and "length (simbodyU j) = length (stateU s)"
  shows "RestoreSimbodyState s j = Inr (s\<lparr>stateQ := simbodyQ j, stateU := simbodyU j\<rparr>)"
proof -
  from restoreQ_write [OF assms(1), of "simbodyQ j" s 0] assms(2)
  have q: "restoreQ (mobod j) (simbodyQ j) 0 s = Inr (s\<lparr>stateQ := simbodyQ j\<rparr>)"
    by simp
  from restoreU_write [OF assms(1), of "simbodyU j" "s\<lparr>stateQ := simbodyQ j\<rparr>" 0] assms(3)
  have "restoreU (mobod j) (simbodyU j) 0 (s\<lparr>stateQ := simbodyQ j\<rparr>) =
          Inr (s\<lparr>stateQ := simbodyQ j, stateU := simbodyU j\<rparr>)"
    by simp
  with q show ?thesis
    using assms(1) by (simp add: RestoreSimbodyState_def)
qed

subsection \<open>Snapshot and restore\<close>

text \<open>
  Claim C2. For a joint with a valid handle whose cache vectors are each empty or of the size
  the solver reports (the data model's invariant), \<^verbatim>\<open>SaveSimbodyState\<close> from a solver state
  followed by \<^verbatim>\<open>RestoreSimbodyState\<close> into a fresh all-zero state of the same counts both
  return, and the restored state holds the original coordinate vector and the original
  velocity vector: reading any coordinate or velocity index from it gives the original value.
\<close>

theorem Save_Restore_roundtrip:
  assumes "\<not> isEmptyHandle (mobod j)" and "cache_sized j s"
  shows "\<exists>j' s'. SaveSimbodyState s j = Inr j'
       \<and> RestoreSimbodyState (zeroState (getNumQ (mobod j) s) (getNumU (mobod j) s)) j' = Inr s'
       \<and> stateQ s' = stateQ s \<and> stateU s' = stateU s
       \<and> (\<forall>i < getNumQ (mobod j) s. getOneQ (mobod j') s' i = getOneQ (mobod j) s i)
       \<and> (\<forall>i < getNumU (mobod j) s. getOneU (mobod j') s' i = getOneU (mobod j) s i)"
proof -
  let ?j' = "j\<lparr>simbodyQ := stateQ s, simbodyU := stateU s\<rparr>"
  let ?z = "zeroState (getNumQ (mobod j) s) (getNumU (mobod j) s)"
  have save: "SaveSimbodyState s j = Inr ?j'"
    by (rule SaveSimbodyState_sized [OF assms])
  have "RestoreSimbodyState ?z ?j' = Inr (?z\<lparr>stateQ := simbodyQ ?j', stateU := simbodyU ?j'\<rparr>)"
    using assms(1)
    by (intro RestoreSimbodyState_full) (simp_all add: zeroState_def getNumQ_def getNumU_def)
  then have "RestoreSimbodyState ?z ?j' = Inr (?z\<lparr>stateQ := stateQ s, stateU := stateU s\<rparr>)"
    by simp
  with save show ?thesis
    by (simp add: getOneQ_def getOneU_def)
qed

theorem Save_Restore_roundtrip_witness:
  "\<not> isEmptyHandle (mobod
       \<lparr>GetAngleCount = 1, physicsInitialized = True, mobod = \<lparr>isEmptyHandle = False\<rparr>,
        simbodyQ = [], simbodyU = []\<rparr>)
   \<and> cache_sized
       \<lparr>GetAngleCount = 1, physicsInitialized = True, mobod = \<lparr>isEmptyHandle = False\<rparr>,
        simbodyQ = [], simbodyU = []\<rparr>
       \<lparr>stateQ = [Val 0.5], stateU = [Val (- 2)], stateMobilityForces = [Val 7]\<rparr>
   \<and> SaveSimbodyState
       \<lparr>stateQ = [Val 0.5], stateU = [Val (- 2)], stateMobilityForces = [Val 7]\<rparr>
       \<lparr>GetAngleCount = 1, physicsInitialized = True, mobod = \<lparr>isEmptyHandle = False\<rparr>,
        simbodyQ = [], simbodyU = []\<rparr>
     = Inr \<lparr>GetAngleCount = 1, physicsInitialized = True, mobod = \<lparr>isEmptyHandle = False\<rparr>,
        simbodyQ = [Val 0.5], simbodyU = [Val (- 2)]\<rparr>
   \<and> RestoreSimbodyState (zeroState 1 1)
       \<lparr>GetAngleCount = 1, physicsInitialized = True, mobod = \<lparr>isEmptyHandle = False\<rparr>,
        simbodyQ = [Val 0.5], simbodyU = [Val (- 2)]\<rparr>
     = Inr \<lparr>stateQ = [Val 0.5], stateU = [Val (- 2)], stateMobilityForces = [Val 0]\<rparr>"
proof -
  let ?j = "\<lparr>GetAngleCount = 1, physicsInitialized = True, mobod = \<lparr>isEmptyHandle = False\<rparr>,
        simbodyQ = [], simbodyU = []\<rparr>"
  let ?s = "\<lparr>stateQ = [Val 0.5], stateU = [Val (- 2)], stateMobilityForces = [Val 7]\<rparr>"
  have a: "\<not> isEmptyHandle (mobod ?j)" by simp
  have b: "cache_sized ?j ?s" by (simp add: cache_sized_def)
  from Save_Restore_roundtrip [OF a b] obtain j' s' where
    r: "SaveSimbodyState ?s ?j = Inr j'"
       "RestoreSimbodyState (zeroState (getNumQ (mobod ?j) ?s) (getNumU (mobod ?j) ?s)) j' = Inr s'"
       "stateQ s' = stateQ ?s" "stateU s' = stateU ?s"
    by blast
  have save: "SaveSimbodyState ?s ?j = Inr (?j\<lparr>simbodyQ := [Val 0.5], simbodyU := [Val (- 2)]\<rparr>)"
    by (simp add: SaveSimbodyState_def resizeIfEmpty_def getNumQ_def getNumU_def
          saveQ.simps saveU.simps getOneQ_def getOneU_def)
  with r(1) have j': "j' = ?j\<lparr>simbodyQ := [Val 0.5], simbodyU := [Val (- 2)]\<rparr>" by simp
  have restore: "RestoreSimbodyState (zeroState 1 1)
        (?j\<lparr>simbodyQ := [Val 0.5], simbodyU := [Val (- 2)]\<rparr>)
      = Inr \<lparr>stateQ = [Val 0.5], stateU = [Val (- 2)], stateMobilityForces = [Val 0]\<rparr>"
    by (simp add: RestoreSimbodyState_def zeroState_def
          restoreQ.simps restoreU.simps setOneQ_def setOneU_def)
  from r(2) have "s' = \<lparr>stateQ = [Val 0.5], stateU = [Val (- 2)], stateMobilityForces = [Val 0]\<rparr>"
    unfolding j' using restore by (simp add: getNumQ_def getNumU_def)
  with r(3,4) save restore a b show ?thesis
    by simp
qed

text \<open>
  Claim C3. For a joint whose two cache vectors are non-empty, \<^verbatim>\<open>SaveSimbodyState\<close> either
  returns a joint whose cache vectors have the lengths they had, or fails on the solver's
  index check because a cache vector is longer than the solver's count; so after a first
  snapshot from such a joint, any further snapshot, from any state, leaves the lengths as the
  first left them.
\<close>

theorem SaveSimbodyState_keeps_lengths:
  assumes "simbodyQ j \<noteq> []" and "simbodyU j \<noteq> []"
  shows "(case SaveSimbodyState s j of
            Inr j' \<Rightarrow> length (simbodyQ j') = length (simbodyQ j)
                     \<and> length (simbodyU j') = length (simbodyU j)
          | Inl e \<Rightarrow> e = IndexOutOfRange \<and> \<not> isEmptyHandle (mobod j)
                     \<and> (getNumQ (mobod j) s < length (simbodyQ j)
                          \<or> getNumU (mobod j) s < length (simbodyU j)))
    \<and> (\<forall>s2 j1 j2. SaveSimbodyState s j = Inr j1 \<and> SaveSimbodyState s2 j1 = Inr j2 \<longrightarrow>
          length (simbodyQ j2) = length (simbodyQ j1)
          \<and> length (simbodyU j2) = length (simbodyU j1))"
proof -
  have keep: "length (simbodyQ j') = length (simbodyQ j) \<and> length (simbodyU j') = length (simbodyU j)"
    if "SaveSimbodyState s j = Inr j'" "simbodyQ j \<noteq> []" "simbodyU j \<noteq> []" for s j j'
    using SaveSimbodyState_lengths [OF that(1)] that(2,3)
    by (simp add: resizeIfEmpty_def)
  have fail: "e = IndexOutOfRange \<and> \<not> isEmptyHandle (mobod j)
                     \<and> (getNumQ (mobod j) s < length (simbodyQ j)
                          \<or> getNumU (mobod j) s < length (simbodyU j))"
    if "SaveSimbodyState s j = Inl e" for e
    using that assms
    by (auto simp: SaveSimbodyState_def Let_def resizeIfEmpty_def getNumQ_def getNumU_def
          split: if_splits sum.splits dest: saveQ_Inl saveU_Inl)
  have first: "case SaveSimbodyState s j of
            Inr j' \<Rightarrow> length (simbodyQ j') = length (simbodyQ j)
                     \<and> length (simbodyU j') = length (simbodyU j)
          | Inl e \<Rightarrow> e = IndexOutOfRange \<and> \<not> isEmptyHandle (mobod j)
                     \<and> (getNumQ (mobod j) s < length (simbodyQ j)
                          \<or> getNumU (mobod j) s < length (simbodyU j))"
    using keep [OF _ assms] fail by (cases "SaveSimbodyState s j") simp_all
  have second: "length (simbodyQ j2) = length (simbodyQ j1)
          \<and> length (simbodyU j2) = length (simbodyU j1)"
    if "SaveSimbodyState s j = Inr j1 \<and> SaveSimbodyState s2 j1 = Inr j2" for s2 j1 j2
  proof -
    from that have s1: "SaveSimbodyState s j = Inr j1" and s2: "SaveSimbodyState s2 j1 = Inr j2"
      by simp_all
    from keep [OF s1 assms] assms have "simbodyQ j1 \<noteq> []" "simbodyU j1 \<noteq> []"
      by auto
    from keep [OF s2 this] show ?thesis .
  qed
  from first second show ?thesis by blast
qed

theorem SaveSimbodyState_keeps_lengths_witness:
  "simbodyQ \<lparr>GetAngleCount = 1, physicsInitialized = False, mobod = \<lparr>isEmptyHandle = False\<rparr>,
        simbodyQ = [Val 0.5], simbodyU = [Val (- 2)]\<rparr> \<noteq> []
   \<and> simbodyU \<lparr>GetAngleCount = 1, physicsInitialized = False, mobod = \<lparr>isEmptyHandle = False\<rparr>,
        simbodyQ = [Val 0.5], simbodyU = [Val (- 2)]\<rparr> \<noteq> []
   \<and> SaveSimbodyState
       \<lparr>stateQ = [Val 0.5], stateU = [Val (- 2)], stateMobilityForces = [Val 7]\<rparr>
       ((newSimbodyHingeJoint 1)\<lparr>mobod := \<lparr>isEmptyHandle = False\<rparr>\<rparr>)
     = Inr \<lparr>GetAngleCount = 1, physicsInitialized = False, mobod = \<lparr>isEmptyHandle = False\<rparr>,
        simbodyQ = [Val 0.5], simbodyU = [Val (- 2)]\<rparr>
   \<and> SaveSimbodyState
       \<lparr>stateQ = [Val 0.75, Val 9], stateU = [Val 3, Val 4], stateMobilityForces = [Val 0, Val 0]\<rparr>
       \<lparr>GetAngleCount = 1, physicsInitialized = False, mobod = \<lparr>isEmptyHandle = False\<rparr>,
        simbodyQ = [Val 0.5], simbodyU = [Val (- 2)]\<rparr>
     = Inr \<lparr>GetAngleCount = 1, physicsInitialized = False, mobod = \<lparr>isEmptyHandle = False\<rparr>,
        simbodyQ = [Val 0.75], simbodyU = [Val 3]\<rparr>
   \<and> (case SaveSimbodyState
       \<lparr>stateQ = [Val 0.75, Val 9], stateU = [Val 3, Val 4], stateMobilityForces = [Val 0, Val 0]\<rparr>
       \<lparr>GetAngleCount = 1, physicsInitialized = False, mobod = \<lparr>isEmptyHandle = False\<rparr>,
        simbodyQ = [Val 0.5], simbodyU = [Val (- 2)]\<rparr> of
         Inr j' \<Rightarrow> length (simbodyQ j') = 1 \<and> length (simbodyU j') = 1
       | Inl e \<Rightarrow> False)"
proof -
  let ?j1 = "\<lparr>GetAngleCount = 1, physicsInitialized = False, mobod = \<lparr>isEmptyHandle = False\<rparr>,
        simbodyQ = [Val 0.5], simbodyU = [Val (- 2)]\<rparr>"
  let ?s2 = "\<lparr>stateQ = [Val 0.75, Val 9], stateU = [Val 3, Val 4],
        stateMobilityForces = [Val 0, Val 0]\<rparr>"
  have a: "simbodyQ ?j1 \<noteq> []" and b: "simbodyU ?j1 \<noteq> []" by simp_all
  have first: "SaveSimbodyState
       \<lparr>stateQ = [Val 0.5], stateU = [Val (- 2)], stateMobilityForces = [Val 7]\<rparr>
       ((newSimbodyHingeJoint 1)\<lparr>mobod := \<lparr>isEmptyHandle = False\<rparr>\<rparr>) = Inr ?j1"
    by (simp add: SaveSimbodyState_def newSimbodyHingeJoint_def resizeIfEmpty_def getNumQ_def
          getNumU_def saveQ.simps saveU.simps getOneQ_def getOneU_def)
  have second: "SaveSimbodyState ?s2 ?j1 =
      Inr (?j1\<lparr>simbodyQ := [Val 0.75], simbodyU := [Val 3]\<rparr>)"
    by (simp add: SaveSimbodyState_def resizeIfEmpty_def getNumQ_def
          getNumU_def saveQ.simps saveU.simps getOneQ_def getOneU_def)
  from SaveSimbodyState_keeps_lengths [OF a b, of ?s2] second
  have "case SaveSimbodyState ?s2 ?j1 of
         Inr j' \<Rightarrow> length (simbodyQ j') = 1 \<and> length (simbodyU j') = 1
       | Inl e \<Rightarrow> False"
    by simp
  with a b first second show ?thesis by simp
qed

subsection \<open>Indexed reads\<close>

text \<open>
  Claim C4. For an index at or beyond the joint's angle count, \<^verbatim>\<open>GetVelocity\<close> returns the
  NaN sentinel, writes one error message to the console, and leaves the joint with its cache
  and the physics engine with its solver state unchanged.
\<close>

theorem GetVelocity_out_of_range:
  assumes "GetAngleCount (joint w) \<le> i"
  shows "\<exists>w'. GetVelocity i w = Inr (NaN, w')
           \<and> joint w' = joint w
           \<and> simbodyPhysics w' = simbodyPhysics w
           \<and> console w' =
               console w @ [gzerr (''Invalid index for joint, returning NaN'' @ [CHR 0x0A])]"
  using assms by (simp add: GetVelocity_def put_def)

theorem GetVelocity_out_of_range_witness:
  "GetAngleCount (joint
      \<lparr>joint = \<lparr>GetAngleCount = 1, physicsInitialized = True,
                mobod = \<lparr>isEmptyHandle = False\<rparr>, simbodyQ = [Val 0.5], simbodyU = [Val 3]\<rparr>,
       simbodyPhysics = Some \<lparr>simbodyPhysicsInitialized = True, simbodyPhysicsStepped = True,
          integState = \<lparr>stateQ = [Val 0.5], stateU = [Val 3], stateMobilityForces = [Val 0]\<rparr>\<rparr>,
       console = []\<rparr>) \<le> 1
   \<and> GetVelocity 1
      \<lparr>joint = \<lparr>GetAngleCount = 1, physicsInitialized = True,
                mobod = \<lparr>isEmptyHandle = False\<rparr>, simbodyQ = [Val 0.5], simbodyU = [Val 3]\<rparr>,
       simbodyPhysics = Some \<lparr>simbodyPhysicsInitialized = True, simbodyPhysicsStepped = True,
          integState = \<lparr>stateQ = [Val 0.5], stateU = [Val 3], stateMobilityForces = [Val 0]\<rparr>\<rparr>,
       console = []\<rparr>
     = Inr (NaN,
      \<lparr>joint = \<lparr>GetAngleCount = 1, physicsInitialized = True,
                mobod = \<lparr>isEmptyHandle = False\<rparr>, simbodyQ = [Val 0.5], simbodyU = [Val 3]\<rparr>,
       simbodyPhysics = Some \<lparr>simbodyPhysicsInitialized = True, simbodyPhysicsStepped = True,
          integState = \<lparr>stateQ = [Val 0.5], stateU = [Val 3], stateMobilityForces = [Val 0]\<rparr>\<rparr>,
       console = [gzerr (''Invalid index for joint, returning NaN'' @ [CHR 0x0A])]\<rparr>)"
proof -
  let ?w = "\<lparr>joint = \<lparr>GetAngleCount = 1, physicsInitialized = True,
                mobod = \<lparr>isEmptyHandle = False\<rparr>, simbodyQ = [Val 0.5], simbodyU = [Val 3]\<rparr>,
       simbodyPhysics = Some \<lparr>simbodyPhysicsInitialized = True, simbodyPhysicsStepped = True,
          integState = \<lparr>stateQ = [Val 0.5], stateU = [Val 3], stateMobilityForces = [Val 0]\<rparr>\<rparr>,
       console = []\<rparr>"
  have a: "GetAngleCount (joint ?w) \<le> 1" by simp
  from GetVelocity_out_of_range [OF a] obtain w' where
    r: "GetVelocity 1 ?w = Inr (NaN, w')" "joint w' = joint ?w"
       "simbodyPhysics w' = simbodyPhysics ?w"
       "console w' = console ?w @ [gzerr (''Invalid index for joint, returning NaN'' @ [CHR 0x0A])]"
    by blast
  from r(2,3,4) have "w' = ?w\<lparr>console :=
      [gzerr (''Invalid index for joint, returning NaN'' @ [CHR 0x0A])]\<rparr>"
    by (cases w') simp
  with r(1) a show ?thesis by simp
qed

text \<open>
  Claim C5. For an index below the joint's angle count: when the readiness test evaluates to
  false, \<^verbatim>\<open>GetVelocity\<close> returns exactly 0.0 and \<^verbatim>\<open>GetAngleImpl\<close> the angle 0.0, each after
  one diagnostic message and with nothing else changed, so neither returns the NaN sentinel;
  when the test evaluates to true, the handle is valid and the index is below the solver's
  count, \<^verbatim>\<open>GetVelocity\<close> returns the velocity and \<^verbatim>\<open>GetAngleImpl\<close> the coordinate that the
  integrator's state holds at that index, and nothing is changed or logged.
\<close>

theorem not_ready_reads_default:
  assumes "i < GetAngleCount (joint w)"
  shows "(solverInitialized w = Inr False \<longrightarrow>
            (\<exists>msg. GetVelocity i w = Inr (Val 0, w\<lparr>console := console w @ [gzdbg msg]\<rparr>))
          \<and> (\<exists>msg. GetAngleImpl i w = Inr (Angle (Val 0), w\<lparr>console := console w @ [gzdbg msg]\<rparr>)))
     \<and> (\<forall>p. solverInitialized w = Inr True \<and> simbodyPhysics w = Some p
              \<and> \<not> isEmptyHandle (mobod (joint w))
              \<and> i < getNumU (mobod (joint w)) (integState p) \<longrightarrow>
            GetVelocity i w = Inr (stateU (integState p) ! i, w))
     \<and> (\<forall>p. solverInitialized w = Inr True \<and> simbodyPhysics w = Some p
              \<and> \<not> isEmptyHandle (mobod (joint w))
              \<and> i < getNumQ (mobod (joint w)) (integState p) \<longrightarrow>
            GetAngleImpl i w = Inr (Angle (stateQ (integState p) ! i), w))"
proof (intro conjI impI allI)
  assume n: "solverInitialized w = Inr False"
  from n assms show "\<exists>msg. GetVelocity i w = Inr (Val 0, w\<lparr>console := console w @ [gzdbg msg]\<rparr>)"
    by (auto simp: solverInitialized_def GetVelocity_def put_def split: if_splits option.splits)
  from n assms show "\<exists>msg. GetAngleImpl i w = Inr (Angle (Val 0), w\<lparr>console := console w @ [gzdbg msg]\<rparr>)"
    by (auto simp: solverInitialized_def GetAngleImpl_def put_def split: if_splits option.splits)
next
  fix p
  assume "solverInitialized w = Inr True \<and> simbodyPhysics w = Some p
              \<and> \<not> isEmptyHandle (mobod (joint w))
              \<and> i < getNumU (mobod (joint w)) (integState p)"
  with assms show "GetVelocity i w = Inr (stateU (integState p) ! i, w)"
    by (auto simp: solverInitialized_def GetVelocity_def getOneU_def getNumU_def split: if_splits)
next
  fix p
  assume "solverInitialized w = Inr True \<and> simbodyPhysics w = Some p
              \<and> \<not> isEmptyHandle (mobod (joint w))
              \<and> i < getNumQ (mobod (joint w)) (integState p)"
  with assms show "GetAngleImpl i w = Inr (Angle (stateQ (integState p) ! i), w)"
    by (auto simp: solverInitialized_def GetAngleImpl_def getOneQ_def getNumQ_def split: if_splits)
qed

theorem not_ready_reads_default_witness:
  "0 < GetAngleCount (joint
      \<lparr>joint = \<lparr>GetAngleCount = 1, physicsInitialized = False,
                mobod = \<lparr>isEmptyHandle = True\<rparr>, simbodyQ = [], simbodyU = []\<rparr>,
       simbodyPhysics = None,
       console = []\<rparr>)
   \<and> solverInitialized
      \<lparr>joint = \<lparr>GetAngleCount = 1, physicsInitialized = False,
                mobod = \<lparr>isEmptyHandle = True\<rparr>, simbodyQ = [], simbodyU = []\<rparr>,
       simbodyPhysics = None,
       console = []\<rparr> = Inr False
   \<and> GetVelocity 0
      \<lparr>joint = \<lparr>GetAngleCount = 1, physicsInitialized = False,
                mobod = \<lparr>isEmptyHandle = True\<rparr>, simbodyQ = [], simbodyU = []\<rparr>,
       simbodyPhysics = None,
       console = []\<rparr>
     = Inr (Val 0,
      \<lparr>joint = \<lparr>GetAngleCount = 1, physicsInitialized = False,
                mobod = \<lparr>isEmptyHandle = True\<rparr>, simbodyQ = [], simbodyU = []\<rparr>,
       simbodyPhysics = None,
       console = [gzdbg (''GetVelocity() simbody not yet initialized, initial velocity should be zero until restart from state has been implemented.'' @ [CHR 0x0A])]\<rparr>)
   \<and> GetAngleImpl 0
      \<lparr>joint = \<lparr>GetAngleCount = 1, physicsInitialized = False,
                mobod = \<lparr>isEmptyHandle = True\<rparr>, simbodyQ = [], simbodyU = []\<rparr>,
       simbodyPhysics = None,
       console = []\<rparr>
     = Inr (Angle (Val 0),
      \<lparr>joint = \<lparr>GetAngleCount = 1, physicsInitialized = False,
                mobod = \<lparr>isEmptyHandle = True\<rparr>, simbodyQ = [], simbodyU = []\<rparr>,
       simbodyPhysics = None,
       console = [gzdbg (''GetAngleImpl() simbody not yet initialized, initial angle should be zero until <initial_angle> is implemented.'' @ [CHR 0x0A])]\<rparr>)
   \<and> solverInitialized
      \<lparr>joint = \<lparr>GetAngleCount = 1, physicsInitialized = True,
                mobod = \<lparr>isEmptyHandle = False\<rparr>, simbodyQ = [], simbodyU = []\<rparr>,
       simbodyPhysics = Some \<lparr>simbodyPhysicsInitialized = True, simbodyPhysicsStepped = True,
          integState = \<lparr>stateQ = [Val 0.5], stateU = [Val 3], stateMobilityForces = [Val 0]\<rparr>\<rparr>,
       console = []\<rparr> = Inr True
   \<and> GetVelocity 0
      \<lparr>joint = \<lparr>GetAngleCount = 1, physicsInitialized = True,
                mobod = \<lparr>isEmptyHandle = False\<rparr>, simbodyQ = [], simbodyU = []\<rparr>,
       simbodyPhysics = Some \<lparr>simbodyPhysicsInitialized = True, simbodyPhysicsStepped = True,
          integState = \<lparr>stateQ = [Val 0.5], stateU = [Val 3], stateMobilityForces = [Val 0]\<rparr>\<rparr>,
       console = []\<rparr>
     = Inr (Val 3,
      \<lparr>joint = \<lparr>GetAngleCount = 1, physicsInitialized = True,
                mobod = \<lparr>isEmptyHandle = False\<rparr>, simbodyQ = [], simbodyU = []\<rparr>,
       simbodyPhysics = Some \<lparr>simbodyPhysicsInitialized = True, simbodyPhysicsStepped = True,
          integState = \<lparr>stateQ = [Val 0.5], stateU = [Val 3], stateMobilityForces = [Val 0]\<rparr>\<rparr>,
       console = []\<rparr>)
   \<and> GetAngleImpl 0
      \<lparr>joint = \<lparr>GetAngleCount = 1, physicsInitialized = True,
                mobod = \<lparr>isEmptyHandle = False\<rparr>, simbodyQ = [], simbodyU = []\<rparr>,
       simbodyPhysics = Some \<lparr>simbodyPhysicsInitialized = True, simbodyPhysicsStepped = True,
          integState = \<lparr>stateQ = [Val 0.5], stateU = [Val 3], stateMobilityForces = [Val 0]\<rparr>\<rparr>,
       console = []\<rparr>
     = Inr (Angle (Val 0.5),
      \<lparr>joint = \<lparr>GetAngleCount = 1, physicsInitialized = True,
                mobod = \<lparr>isEmptyHandle = False\<rparr>, simbodyQ = [], simbodyU = []\<rparr>,
       simbodyPhysics = Some \<lparr>simbodyPhysicsInitialized = True, simbodyPhysicsStepped = True,
          integState = \<lparr>stateQ = [Val 0.5], stateU = [Val 3], stateMobilityForces = [Val 0]\<rparr>\<rparr>,
       console = []\<rparr>)"
proof -
  let ?n = "\<lparr>joint = \<lparr>GetAngleCount = 1, physicsInitialized = False,
                mobod = \<lparr>isEmptyHandle = True\<rparr>, simbodyQ = [], simbodyU = []\<rparr>,
       simbodyPhysics = None,
       console = []\<rparr>"
  let ?r = "\<lparr>joint = \<lparr>GetAngleCount = 1, physicsInitialized = True,
                mobod = \<lparr>isEmptyHandle = False\<rparr>, simbodyQ = [], simbodyU = []\<rparr>,
       simbodyPhysics = Some \<lparr>simbodyPhysicsInitialized = True, simbodyPhysicsStepped = True,
          integState = \<lparr>stateQ = [Val 0.5], stateU = [Val 3], stateMobilityForces = [Val 0]\<rparr>\<rparr>,
       console = []\<rparr>"
  have a: "0 < GetAngleCount (joint ?n)" and b: "0 < GetAngleCount (joint ?r)"
    by simp_all
  have n: "solverInitialized ?n = Inr False" and r: "solverInitialized ?r = Inr True"
    by (simp_all add: solverInitialized_def)
  have v: "GetVelocity 0 ?n = Inr (Val 0, ?n\<lparr>console := [gzdbg (''GetVelocity() simbody not yet initialized, initial velocity should be zero until restart from state has been implemented.'' @ [CHR 0x0A])]\<rparr>)"
    by (simp add: GetVelocity_def put_def)
  have g: "GetAngleImpl 0 ?n = Inr (Angle (Val 0), ?n\<lparr>console := [gzdbg (''GetAngleImpl() simbody not yet initialized, initial angle should be zero until <initial_angle> is implemented.'' @ [CHR 0x0A])]\<rparr>)"
    by (simp add: GetAngleImpl_def put_def)
  from not_ready_reads_default [OF b] r
  have "GetVelocity 0 ?r = Inr (Val 3, ?r) \<and> GetAngleImpl 0 ?r = Inr (Angle (Val 0.5), ?r)"
    by (simp add: getNumU_def getNumQ_def)
  with not_ready_reads_default [OF a] a n r v g show ?thesis
    by simp
qed

text \<open>
  Claim C10. For an index at or beyond the joint's angle count, whatever the readiness flags
  and the engine pointer are, \<^verbatim>\<open>GetVelocity\<close> returns the NaN sentinel, \<^verbatim>\<open>GetAngleImpl\<close> the
  NaN angle and \<^verbatim>\<open>GetGlobalAxis\<close> the all-NaN vector, each after one error message and with
  nothing else changed: the range check comes before the readiness check.
\<close>

theorem out_of_range_before_not_ready:
  assumes "GetAngleCount (joint w) \<le> i"
  shows "(\<exists>msg. GetVelocity i w = Inr (NaN, w\<lparr>console := console w @ [gzerr msg]\<rparr>))
       \<and> (\<exists>msg. GetAngleImpl i w = Inr (Angle NaN, w\<lparr>console := console w @ [gzerr msg]\<rparr>))
       \<and> (\<exists>msg. GetGlobalAxis outboardZ localAxis i w =
                   Inr (Vector3 NaN NaN NaN, w\<lparr>console := console w @ [gzerr msg]\<rparr>))"
  using assms
  by (auto simp: GetVelocity_def GetAngleImpl_def GetGlobalAxis_def put_def Let_def
        split: option.splits)

theorem out_of_range_before_not_ready_witness:
  "GetAngleCount (joint
      \<lparr>joint = \<lparr>GetAngleCount = 1, physicsInitialized = False,
                mobod = \<lparr>isEmptyHandle = True\<rparr>, simbodyQ = [], simbodyU = []\<rparr>,
       simbodyPhysics = None,
       console = []\<rparr>) \<le> 1
   \<and> solverInitialized
      \<lparr>joint = \<lparr>GetAngleCount = 1, physicsInitialized = False,
                mobod = \<lparr>isEmptyHandle = True\<rparr>, simbodyQ = [], simbodyU = []\<rparr>,
       simbodyPhysics = None,
       console = []\<rparr> = Inr False
   \<and> GetVelocity 1
      \<lparr>joint = \<lparr>GetAngleCount = 1, physicsInitialized = False,
                mobod = \<lparr>isEmptyHandle = True\<rparr>, simbodyQ = [], simbodyU = []\<rparr>,
       simbodyPhysics = None,
       console = []\<rparr>
     = Inr (NaN,
      \<lparr>joint = \<lparr>GetAngleCount = 1, physicsInitialized = False,
                mobod = \<lparr>isEmptyHandle = True\<rparr>, simbodyQ = [], simbodyU = []\<rparr>,
       simbodyPhysics = None,
       console = [gzerr (''Invalid index for joint, returning NaN'' @ [CHR 0x0A])]\<rparr>)
   \<and> GetAngleImpl 1
      \<lparr>joint = \<lparr>GetAngleCount = 1, physicsInitialized = False,
                mobod = \<lparr>isEmptyHandle = True\<rparr>, simbodyQ = [], simbodyU = []\<rparr>,
       simbodyPhysics = None,
       console = []\<rparr>
     = Inr (Angle NaN,
      \<lparr>joint = \<lparr>GetAngleCount = 1, physicsInitialized = False,
                mobod = \<lparr>isEmptyHandle = True\<rparr>, simbodyQ = [], simbodyU = []\<rparr>,
       simbodyPhysics = None,
       console = [gzerr (''index out of bound'' @ [CHR 0x0A])]\<rparr>)
   \<and> GetGlobalAxis (\<lambda>s. Vector3 (Val 0) (Val 0) (Val 1)) (\<lambda>k. Vector3 (Val 1) (Val 0) (Val 0)) 1
      \<lparr>joint = \<lparr>GetAngleCount = 1, physicsInitialized = False,
                mobod = \<lparr>isEmptyHandle = True\<rparr>, simbodyQ = [], simbodyU = []\<rparr>,
       simbodyPhysics = None,
       console = []\<rparr>
     = Inr (Vector3 NaN NaN NaN,
      \<lparr>joint = \<lparr>GetAngleCount = 1, physicsInitialized = False,
                mobod = \<lparr>isEmptyHandle = True\<rparr>, simbodyQ = [], simbodyU = []\<rparr>,
       simbodyPhysics = None,
       console = [gzerr (''index out of bound'' @ [CHR 0x0A])]\<rparr>)"
proof -
  let ?n = "\<lparr>joint = \<lparr>GetAngleCount = 1, physicsInitialized = False,
                mobod = \<lparr>isEmptyHandle = True\<rparr>, simbodyQ = [], simbodyU = []\<rparr>,
       simbodyPhysics = None,
       console = []\<rparr>"
  have a: "GetAngleCount (joint ?n) \<le> 1" by simp
  have n: "solverInitialized ?n = Inr False" by (simp add: solverInitialized_def)
  from out_of_range_before_not_ready [OF a, of "(\<lambda>s. Vector3 (Val 0) (Val 0) (Val 1))" "(\<lambda>k. Vector3 (Val 1) (Val 0) (Val 0))"]
  obtain m1 m2 m3 where
    r: "GetVelocity 1 ?n = Inr (NaN, ?n\<lparr>console := console ?n @ [gzerr m1]\<rparr>)"
       "GetAngleImpl 1 ?n = Inr (Angle NaN, ?n\<lparr>console := console ?n @ [gzerr m2]\<rparr>)"
       "GetGlobalAxis (\<lambda>s. Vector3 (Val 0) (Val 0) (Val 1)) (\<lambda>k. Vector3 (Val 1) (Val 0) (Val 0)) 1 ?n =
          Inr (Vector3 NaN NaN NaN, ?n\<lparr>console := console ?n @ [gzerr m3]\<rparr>)"
    by blast
  have "GetVelocity 1 ?n = Inr (NaN, ?n\<lparr>console := [gzerr (''Invalid index for joint, returning NaN'' @ [CHR 0x0A])]\<rparr>)"
    by (simp add: GetVelocity_def put_def)
  moreover have "GetAngleImpl 1 ?n = Inr (Angle NaN, ?n\<lparr>console := [gzerr (''index out of bound'' @ [CHR 0x0A])]\<rparr>)"
    by (simp add: GetAngleImpl_def put_def)
  moreover have "GetGlobalAxis (\<lambda>s. Vector3 (Val 0) (Val 0) (Val 1)) (\<lambda>k. Vector3 (Val 1) (Val 0) (Val 0)) 1 ?n =
      Inr (Vector3 NaN NaN NaN, ?n\<lparr>console := [gzerr (''index out of bound'' @ [CHR 0x0A])]\<rparr>)"
    by (simp add: GetGlobalAxis_def put_def)
  ultimately show ?thesis using a n r by simp
qed

subsection \<open>Indexed writes\<close>

text \<open>
  Claim C8, as stated, asks that an out-of-range \<^verbatim>\<open>SetForceImpl\<close> be logged as an error. It is
  not: with angle count 1 and index 1 the call returns with the console still empty.
\<close>

theorem SetForceImpl_out_of_range_not_logged:
  "SetForceImpl 1 (Val 2)
      \<lparr>joint = \<lparr>GetAngleCount = 1, physicsInitialized = True,
                mobod = \<lparr>isEmptyHandle = False\<rparr>, simbodyQ = [], simbodyU = []\<rparr>,
       simbodyPhysics = Some \<lparr>simbodyPhysicsInitialized = True, simbodyPhysicsStepped = True,
          integState = \<lparr>stateQ = [Val 0.5], stateU = [Val 3], stateMobilityForces = [Val 0]\<rparr>\<rparr>,
       console = []\<rparr>
   = Inr
      \<lparr>joint = \<lparr>GetAngleCount = 1, physicsInitialized = True,
                mobod = \<lparr>isEmptyHandle = False\<rparr>, simbodyQ = [], simbodyU = []\<rparr>,
       simbodyPhysics = Some \<lparr>simbodyPhysicsInitialized = True, simbodyPhysicsStepped = True,
          integState = \<lparr>stateQ = [Val 0.5], stateU = [Val 3], stateMobilityForces = [Val 0]\<rparr>\<rparr>,
       console = []\<rparr>"
  by (simp add: SetForceImpl_def)

text \<open>
  Claim C8, amended. For an index at or beyond the joint's angle count, \<^verbatim>\<open>SetVelocity\<close> writes
  one error message and changes nothing else, and \<^verbatim>\<open>SetForceImpl\<close> changes nothing at all and
  logs nothing; the solver state, the cache and the rest of the joint stay as they were.
  \<^verbatim>\<open>SetVelocity\<close> leaves the joint, and with it the cache, unchanged for every index.
\<close>

theorem out_of_range_writes_ignored:
  assumes "GetAngleCount (joint w) \<le> i"
  shows "(\<exists>msg. SetVelocity i rate w = Inr (w\<lparr>console := console w @ [gzerr msg]\<rparr>))
       \<and> SetForceImpl i torque w = Inr w
       \<and> (\<forall>k r w'. SetVelocity k r w = Inr w' \<longrightarrow> joint w' = joint w)"
  using assms
  by (auto simp: SetVelocity_def SetForceImpl_def put_def split: option.splits sum.splits if_splits)

theorem out_of_range_writes_ignored_witness:
  "GetAngleCount (joint
      \<lparr>joint = \<lparr>GetAngleCount = 1, physicsInitialized = True,
                mobod = \<lparr>isEmptyHandle = False\<rparr>, simbodyQ = [], simbodyU = []\<rparr>,
       simbodyPhysics = Some \<lparr>simbodyPhysicsInitialized = True, simbodyPhysicsStepped = True,
          integState = \<lparr>stateQ = [Val 0.5], stateU = [Val 3], stateMobilityForces = [Val 0]\<rparr>\<rparr>,
       console = []\<rparr>) \<le> 1
   \<and> SetVelocity 1 (Val 2)
      \<lparr>joint = \<lparr>GetAngleCount = 1, physicsInitialized = True,
                mobod = \<lparr>isEmptyHandle = False\<rparr>, simbodyQ = [], simbodyU = []\<rparr>,
       simbodyPhysics = Some \<lparr>simbodyPhysicsInitialized = True, simbodyPhysicsStepped = True,
          integState = \<lparr>stateQ = [Val 0.5], stateU = [Val 3], stateMobilityForces = [Val 0]\<rparr>\<rparr>,
       console = []\<rparr>
     = Inr
      \<lparr>joint = \<lparr>GetAngleCount = 1, physicsInitialized = True,
                mobod = \<lparr>isEmptyHandle = False\<rparr>, simbodyQ = [], simbodyU = []\<rparr>,
       simbodyPhysics = Some \<lparr>simbodyPhysicsInitialized = True, simbodyPhysicsStepped = True,
          integState = \<lparr>stateQ = [Val 0.5], stateU = [Val 3], stateMobilityForces = [Val 0]\<rparr>\<rparr>,
       console = [gzerr (''SetVelocity _index too large.'' @ [CHR 0x0A])]\<rparr>
   \<and> SetForceImpl 1 (Val 2)
      \<lparr>joint = \<lparr>GetAngleCount = 1, physicsInitialized = True,
                mobod = \<lparr>isEmptyHandle = False\<rparr>, simbodyQ = [], simbodyU = []\<rparr>,
       simbodyPhysics = Some \<lparr>simbodyPhysicsInitialized = True, simbodyPhysicsStepped = True,
          integState = \<lparr>stateQ = [Val 0.5], stateU = [Val 3], stateMobilityForces = [Val 0]\<rparr>\<rparr>,
       console = []\<rparr>
     = Inr
      \<lparr>joint = \<lparr>GetAngleCount = 1, physicsInitialized = True,
                mobod = \<lparr>isEmptyHandle = False\<rparr>, simbodyQ = [], simbodyU = []\<rparr>,
       simbodyPhysics = Some \<lparr>simbodyPhysicsInitialized = True, simbodyPhysicsStepped = True,
          integState = \<lparr>stateQ = [Val 0.5], stateU = [Val 3], stateMobilityForces = [Val 0]\<rparr>\<rparr>,
       console = []\<rparr>
   \<and> SetVelocity 0 (Val 2)
      \<lparr>joint = \<lparr>GetAngleCount = 1, physicsInitialized = True,
                mobod = \<lparr>isEmptyHandle = False\<rparr>, simbodyQ = [], simbodyU = []\<rparr>,
       simbodyPhysics = Some \<lparr>simbodyPhysicsInitialized = True, simbodyPhysicsStepped = True,
          integState = \<lparr>stateQ = [Val 0.5], stateU = [Val 3], stateMobilityForces = [Val 0]\<rparr>\<rparr>,
       console = []\<rparr>
     = Inr
      \<lparr>joint = \<lparr>GetAngleCount = 1, physicsInitialized = True,
                mobod = \<lparr>isEmptyHandle = False\<rparr>, simbodyQ = [], simbodyU = []\<rparr>,
       simbodyPhysics = Some \<lparr>simbodyPhysicsInitialized = True, simbodyPhysicsStepped = True,
          integState = \<lparr>stateQ = [Val 0.5], stateU = [Val 2], stateMobilityForces = [Val 0]\<rparr>\<rparr>,
       console = []\<rparr>"
proof -
  let ?r = "\<lparr>joint = \<lparr>GetAngleCount = 1, physicsInitialized = True,
                mobod = \<lparr>isEmptyHandle = False\<rparr>, simbodyQ = [], simbodyU = []\<rparr>,
       simbodyPhysics = Some \<lparr>simbodyPhysicsInitialized = True, simbodyPhysicsStepped = True,
          integState = \<lparr>stateQ = [Val 0.5], stateU = [Val 3], stateMobilityForces = [Val 0]\<rparr>\<rparr>,
       console = []\<rparr>"
  have a: "GetAngleCount (joint ?r) \<le> 1" by simp
  have "SetVelocity 1 (Val 2) ?r = Inr (?r\<lparr>console := [gzerr (''SetVelocity _index too large.'' @ [CHR 0x0A])]\<rparr>)"
    by (simp add: SetVelocity_def put_def)
  moreover have "SetVelocity 0 (Val 2) ?r =
      Inr \<lparr>joint = \<lparr>GetAngleCount = 1, physicsInitialized = True,
                mobod = \<lparr>isEmptyHandle = False\<rparr>, simbodyQ = [], simbodyU = []\<rparr>,
       simbodyPhysics = Some \<lparr>simbodyPhysicsInitialized = True, simbodyPhysicsStepped = True,
          integState = \<lparr>stateQ = [Val 0.5], stateU = [Val 2], stateMobilityForces = [Val 0]\<rparr>\<rparr>,
       console = []\<rparr>"
    by (simp add: SetVelocity_def setOneU_def)
  ultimately show ?thesis
    using out_of_range_writes_ignored [OF a, of "Val 2" "Val 2"] a by simp
qed

end
